theory Spec2Isabelle
  imports Main "HOL-Library.Word"
begin

section \<open>Consensus parameters of \<^verbatim>\<open>types/params.go\<close>\<close>

text \<open>
  A shallow embedding of the consensus-parameter module: the parameter set and its
  sub-groups, the activation predicates, \<^verbatim>\<open>ValidateBasic\<close>, \<^verbatim>\<open>ValidateUpdate\<close> with its two
  per-feature checks, \<^verbatim>\<open>Hash\<close>, \<^verbatim>\<open>Update\<close>, \<^verbatim>\<open>ToProto\<close> and \<^verbatim>\<open>ConsensusParamsFromProto\<close>.

  Go's \<^verbatim>\<open>int64\<close>, \<^verbatim>\<open>uint64\<close> and \<^verbatim>\<open>time.Duration\<close> (an \<^verbatim>\<open>int64\<close> of nanoseconds) are 64-bit
  words. The comparisons of the source on \<^verbatim>\<open>int64\<close> are signed: they are \<open>\<le>s\<close> and \<open><s\<close>
  here, and \<open>sint\<close> reads a word as the integer Go sees.
\<close>

subsection \<open>Machine integers\<close>

type_synonym int64 = "64 word"
type_synonym uint64 = "64 word"
type_synonym Duration = "64 word"
type_synonym byte = "8 word"

subsection \<open>Slices of strings and the memory behind them\<close>

text \<open>
  \<^verbatim>\<open>[]string\<close> is a slice header: a pointer to the first element (\<open>None\<close> is the nil
  slice) and a length. The elements live in memory, one string per cell. The capacity is left
  out: the source never reads it and never appends to a slice that has room.
  Memory is a total map from cell addresses to strings together with the first free address;
  every cell below \<open>brk\<close> has been allocated.
\<close>

type_synonym addr = nat

record slice =
  ptr :: "addr option"
  len :: nat

record memory =
  cell :: "addr \<Rightarrow> string"
  brk :: addr

definition nil_slice :: slice where
  "nil_slice = \<lparr>ptr = None, len = 0\<rparr>"

text \<open>The elements a slice shows in a memory: \<^verbatim>\<open>s[0], ..., s[len(s)-1]\<close>.\<close>

definition elems :: "memory \<Rightarrow> slice \<Rightarrow> string list" where
  "elems M s = (case ptr s of None \<Rightarrow> [] | Some a \<Rightarrow> map (\<lambda>i. cell M (a + i)) [0..<len s])"

text \<open>A slice is allocated in a memory when all its cells lie below the first free address.\<close>

definition allocated :: "memory \<Rightarrow> slice \<Rightarrow> bool" where
  "allocated M s = (case ptr s of None \<Rightarrow> len s = 0 | Some a \<Rightarrow> a + len s \<le> brk M)"

text \<open>
  \<^verbatim>\<open>append([]string{}, xs...)\<close>: the empty literal has no room, so the elements are copied
  into fresh cells (none when \<^verbatim>\<open>xs\<close> is empty; the result is then the empty non-nil slice).
\<close>

definition alloc_copy :: "memory \<Rightarrow> string list \<Rightarrow> slice \<times> memory" where
  "alloc_copy M xs =
     (\<lparr>ptr = Some (brk M), len = length xs\<rparr>,
      M\<lparr>cell := (\<lambda>a. if brk M \<le> a \<and> a < brk M + length xs then xs ! (a - brk M) else cell M a),
        brk := brk M + length xs\<rparr>)"

definition append_to_empty :: "memory \<Rightarrow> slice \<Rightarrow> slice \<times> memory" where
  "append_to_empty M src = alloc_copy M (elems M src)"

subsection \<open>The parameter set\<close>

text \<open>
  Field names are those of the source; \<^verbatim>\<open>EvidenceParams.MaxBytes\<close> is \<open>EvidenceMaxBytes\<close>,
  since \<^verbatim>\<open>BlockParams\<close> has a field of the same name.
\<close>

record BlockParams =
  MaxBytes :: int64
  MaxGas :: int64

record EvidenceParams =
  MaxAgeNumBlocks :: int64
  MaxAgeDuration :: Duration
  EvidenceMaxBytes :: int64

record ValidatorParams =
  PubKeyTypes :: slice

record VersionParams =
  App :: uint64

record ABCIParams =
  VoteExtensionsEnableHeight :: int64

record PBTSParams =
  PBTSEnableHeight :: int64

record SynchronyParams =
  Precision :: Duration
  MessageDelay :: Duration

record ConsensusParams =
  Block :: BlockParams
  Evidence :: EvidenceParams
  Validator :: ValidatorParams
  Version :: VersionParams
  ABCI :: ABCIParams
  Synchrony :: SynchronyParams
  PBTS :: PBTSParams

subsection \<open>Errors and panics\<close>

text \<open>
  One constructor for each error the source builds, in the order of the source, carrying the
  values its message prints. \<open>External\<close> is an error returned by code outside the module
  (the marshaller and the hasher of \<^verbatim>\<open>Hash\<close>).
\<close>

datatype error =
    BlockMaxBytesZero
  | BlockMaxBytesTooSmall int64
  | BlockMaxBytesTooBig int64 int64
  | BlockMaxGasTooSmall int64
  | EvidenceMaxAgeNumBlocksNotPositive int64
  | EvidenceMaxAgeDurationNotPositive Duration
  | EvidenceMaxBytesTooBig int64 int64
  | EvidenceMaxBytesNegative int64
  | VoteExtensionsEnableHeightNegative int64
  | MessageDelayNotPositive Duration
  | PrecisionNotPositive Duration
  | PBTSEnableHeightNegative int64
  | PubKeyTypesEmpty
  | UnknownPubKeyType nat string
  | VoteExtensionsCannotBeDisabled
  | VoteExtensionsPastHeight int64 int64
  | VoteExtensionsInitialHeightOccurred int64 int64
  | PBTSAlreadyEnabled
  | PBTSPastHeight int64 int64
  | VoteExtensionsHeightBelowOne int64
  | PBTSHeightBelowOne int64
  | External string

text \<open>
  A panic is either \<^verbatim>\<open>panic(err)\<close> or the runtime's nil pointer dereference. A function
  that can panic returns \<open>panic + 'a\<close>; a function returning Go's \<^verbatim>\<open>error\<close> returns
  \<open>error option\<close>, \<open>None\<close> being \<^verbatim>\<open>nil\<close>.
\<close>

datatype panic = PanicError error | NilPointerDereference

subsection \<open>Constants\<close>

definition MaxBlockSizeBytes :: int64 where
  "MaxBlockSizeBytes = 100 * 1024 * 1024"

text \<open>
  The key-type identifiers and display names are constants of the packages
  \<^verbatim>\<open>crypto/ed25519\<close> and \<^verbatim>\<open>crypto/secp256k1\<close>, which are not among the sources: they are
  parameters of the model.
\<close>

record key_constants =
  ed25519_KeyType :: string
  ed25519_PubKeyName :: string
  secp256k1_KeyType :: string
  secp256k1_PubKeyName :: string

definition ABCIPubKeyTypeEd25519 :: "key_constants \<Rightarrow> string" where
  "ABCIPubKeyTypeEd25519 K = ed25519_KeyType K"

definition ABCIPubKeyTypeSecp256k1 :: "key_constants \<Rightarrow> string" where
  "ABCIPubKeyTypeSecp256k1 K = secp256k1_KeyType K"

definition ABCIPubKeyTypesToNames :: "key_constants \<Rightarrow> (string \<rightharpoonup> string)" where
  "ABCIPubKeyTypesToNames K =
     [ABCIPubKeyTypeEd25519 K \<mapsto> ed25519_PubKeyName K,
      ABCIPubKeyTypeSecp256k1 K \<mapsto> secp256k1_PubKeyName K]"

subsection \<open>Activation predicates\<close>

definition VoteExtensionsEnabled :: "ABCIParams \<Rightarrow> int64 \<Rightarrow> panic + bool" where
  "VoteExtensionsEnabled a h =
     (if h <s 1 then Inl (PanicError (VoteExtensionsHeightBelowOne h))
      else if VoteExtensionsEnableHeight a = 0 then Inr False
      else Inr (VoteExtensionsEnableHeight a \<le>s h))"

definition PBTSEnabled :: "PBTSParams \<Rightarrow> int64 \<Rightarrow> panic + bool" where
  "PBTSEnabled p h =
     (if h <s 1 then Inl (PanicError (PBTSHeightBelowOne h))
      else if PBTSEnableHeight p = 0 then Inr False
      else Inr (PBTSEnableHeight p \<le>s h))"

subsection \<open>Defaults\<close>

definition DefaultBlockParams :: BlockParams where
  "DefaultBlockParams = \<lparr>MaxBytes = 4194304, MaxGas = 10000000\<rparr>"

text \<open>\<^verbatim>\<open>48 * time.Hour\<close>, in nanoseconds.\<close>

definition DefaultEvidenceParams :: EvidenceParams where
  "DefaultEvidenceParams =
     \<lparr>MaxAgeNumBlocks = 100000, MaxAgeDuration = 48 * 3600000000000, EvidenceMaxBytes = 1048576\<rparr>"

text \<open>The slice literal \<^verbatim>\<open>[]string{ABCIPubKeyTypeEd25519}\<close> is allocated in memory.\<close>

definition DefaultValidatorParams :: "key_constants \<Rightarrow> memory \<Rightarrow> ValidatorParams \<times> memory" where
  "DefaultValidatorParams K M =
     (let (s, M') = alloc_copy M [ABCIPubKeyTypeEd25519 K] in (\<lparr>PubKeyTypes = s\<rparr>, M'))"

definition DefaultVersionParams :: VersionParams where
  "DefaultVersionParams = \<lparr>App = 0\<rparr>"

definition DefaultABCIParams :: ABCIParams where
  "DefaultABCIParams = \<lparr>VoteExtensionsEnableHeight = 0\<rparr>"

text \<open>\<^verbatim>\<open>500 * time.Millisecond\<close> and \<^verbatim>\<open>2 * time.Second\<close>, in nanoseconds.\<close>

definition DefaultSynchronyParams :: SynchronyParams where
  "DefaultSynchronyParams = \<lparr>Precision = 500 * 1000000, MessageDelay = 2 * 1000000000\<rparr>"

definition DefaultPBTSParams :: PBTSParams where
  "DefaultPBTSParams = \<lparr>PBTSEnableHeight = 0\<rparr>"

definition DefaultConsensusParams :: "key_constants \<Rightarrow> memory \<Rightarrow> ConsensusParams \<times> memory" where
  "DefaultConsensusParams K M =
     (let (v, M') = DefaultValidatorParams K M in
      (\<lparr>Block = DefaultBlockParams,
        Evidence = DefaultEvidenceParams,
        Validator = v,
        Version = DefaultVersionParams,
        ABCI = DefaultABCIParams,
        Synchrony = DefaultSynchronyParams,
        PBTS = DefaultPBTSParams\<rparr>, M'))"

subsection \<open>ValidateBasic\<close>

text \<open>
  The loop over \<^verbatim>\<open>params.Validator.PubKeyTypes\<close>: the first key type that is not a key of
  the registry ends it with an error naming its index.
\<close>

fun checkPubKeyTypes :: "(string \<rightharpoonup> string) \<Rightarrow> nat \<Rightarrow> string list \<Rightarrow> error option" where
  "checkPubKeyTypes reg i [] = None"
| "checkPubKeyTypes reg i (keyType # rest) =
     (case reg keyType of
        None \<Rightarrow> Some (UnknownPubKeyType i keyType)
      | Some _ \<Rightarrow> checkPubKeyTypes reg (Suc i) rest)"

definition ValidateBasic :: "key_constants \<Rightarrow> memory \<Rightarrow> ConsensusParams \<Rightarrow> error option" where
  "ValidateBasic K M params =
     (if MaxBytes (Block params) = 0 then Some BlockMaxBytesZero
      else if MaxBytes (Block params) <s - 1
        then Some (BlockMaxBytesTooSmall (MaxBytes (Block params)))
      else if MaxBlockSizeBytes <s MaxBytes (Block params)
        then Some (BlockMaxBytesTooBig (MaxBytes (Block params)) MaxBlockSizeBytes)
      else if MaxGas (Block params) <s - 1
        then Some (BlockMaxGasTooSmall (MaxGas (Block params)))
      else if MaxAgeNumBlocks (Evidence params) \<le>s 0
        then Some (EvidenceMaxAgeNumBlocksNotPositive (MaxAgeNumBlocks (Evidence params)))
      else if MaxAgeDuration (Evidence params) \<le>s 0
        then Some (EvidenceMaxAgeDurationNotPositive (MaxAgeDuration (Evidence params)))
      else
        let maxBytes = (if MaxBytes (Block params) = - 1 then MaxBlockSizeBytes
                        else MaxBytes (Block params))
        in
        if maxBytes <s EvidenceMaxBytes (Evidence params)
          then Some (EvidenceMaxBytesTooBig (EvidenceMaxBytes (Evidence params))
                       (MaxBytes (Block params)))
        else if EvidenceMaxBytes (Evidence params) <s 0
          then Some (EvidenceMaxBytesNegative (EvidenceMaxBytes (Evidence params)))
        else if VoteExtensionsEnableHeight (ABCI params) <s 0
          then Some (VoteExtensionsEnableHeightNegative (VoteExtensionsEnableHeight (ABCI params)))
        else if MessageDelay (Synchrony params) \<le>s 0
          then Some (MessageDelayNotPositive (MessageDelay (Synchrony params)))
        else if Precision (Synchrony params) \<le>s 0
          then Some (PrecisionNotPositive (Precision (Synchrony params)))
        else if PBTSEnableHeight (PBTS params) <s 0
          then Some (PBTSEnableHeightNegative (PBTSEnableHeight (PBTS params)))
        else if len (PubKeyTypes (Validator params)) = 0 then Some PubKeyTypesEmpty
        else checkPubKeyTypes (ABCIPubKeyTypesToNames K) 0
               (elems M (PubKeyTypes (Validator params))))"

subsection \<open>The wire messages\<close>

text \<open>
  Modelled from the spec: the wire messages of package \<^verbatim>\<open>cmtproto\<close> and their generated
  accessors are not among the sources. Each sub-group of \<^verbatim>\<open>cmtproto.ConsensusParams\<close> is a
  pointer that may be nil ("any sub-group may be absent"), here an \<open>option\<close>; the two
  durations of the Synchrony sub-message are pointers too ("per-field presence within the
  sub-group"). The fields carry the prefix \<open>pb\<close>. A pointer to a duration is modelled by the
  value it points to: the source only takes the address of a field and reads through it.
\<close>

record pbBlockParams =
  pbMaxBytes :: int64
  pbMaxGas :: int64

record pbEvidenceParams =
  pbMaxAgeNumBlocks :: int64
  pbMaxAgeDuration :: Duration
  pbEvidenceMaxBytes :: int64

record pbValidatorParams =
  pbPubKeyTypes :: slice

record pbVersionParams =
  pbApp :: uint64

record pbABCIParams =
  pbVoteExtensionsEnableHeight :: int64

record pbSynchronyParams =
  pbPrecision :: "Duration option"
  pbMessageDelay :: "Duration option"

record pbPBTSParams =
  pbPbtsEnableHeight :: int64

record pbConsensusParams =
  pbBlock :: "pbBlockParams option"
  pbEvidence :: "pbEvidenceParams option"
  pbValidator :: "pbValidatorParams option"
  pbVersion :: "pbVersionParams option"
  pbAbci :: "pbABCIParams option"
  pbSynchrony :: "pbSynchronyParams option"
  pbPbts :: "pbPBTSParams option"

record HashedParams =
  BlockMaxBytes :: int64
  BlockMaxGas :: int64

text \<open>
  Modelled from the spec: the generated accessors, which are not among the sources. On a nil
  receiver they return the zero value (the "zero/disabled" value of the field).
\<close>

definition GetVoteExtensionsEnableHeight :: "pbABCIParams option \<Rightarrow> int64" where
  "GetVoteExtensionsEnableHeight m =
     (case m of None \<Rightarrow> 0 | Some a \<Rightarrow> pbVoteExtensionsEnableHeight a)"

definition GetPbtsEnableHeight :: "pbPBTSParams option \<Rightarrow> int64" where
  "GetPbtsEnableHeight m = (case m of None \<Rightarrow> 0 | Some p \<Rightarrow> pbPbtsEnableHeight p)"

definition GetMessageDelay :: "pbSynchronyParams option \<Rightarrow> Duration option" where
  "GetMessageDelay m = (case m of None \<Rightarrow> None | Some s \<Rightarrow> pbMessageDelay s)"

definition GetPrecision :: "pbSynchronyParams option \<Rightarrow> Duration option" where
  "GetPrecision m = (case m of None \<Rightarrow> None | Some s \<Rightarrow> pbPrecision s)"

subsection \<open>ValidateUpdate\<close>

text \<open>
  \<^verbatim>\<open>updated\<close> is a pointer: reading a field of nil, or of a nil sub-message, panics.
\<close>

definition validateUpdateABCI ::
  "ConsensusParams \<Rightarrow> pbConsensusParams option \<Rightarrow> int64 \<Rightarrow> panic + error option" where
  "validateUpdateABCI params updated h =
     (case updated of None \<Rightarrow> Inl NilPointerDereference
      | Some u \<Rightarrow>
        (case pbAbci u of None \<Rightarrow> Inl NilPointerDereference
         | Some abci \<Rightarrow>
           if VoteExtensionsEnableHeight (ABCI params) = pbVoteExtensionsEnableHeight abci
             then Inr None
           else if VoteExtensionsEnableHeight (ABCI params) \<noteq> 0
                   \<and> pbVoteExtensionsEnableHeight abci = 0
             then Inr (Some VoteExtensionsCannotBeDisabled)
           else if pbVoteExtensionsEnableHeight abci \<le>s h
             then Inr (Some (VoteExtensionsPastHeight
                               (VoteExtensionsEnableHeight (ABCI params)) h))
           else if VoteExtensionsEnableHeight (ABCI params) \<le>s h
             then Inr (Some (VoteExtensionsInitialHeightOccurred
                               (VoteExtensionsEnableHeight (ABCI params)) h))
           else Inr None))"

definition validateUpdatePBTS ::
  "ConsensusParams \<Rightarrow> pbConsensusParams option \<Rightarrow> int64 \<Rightarrow> panic + error option" where
  "validateUpdatePBTS params updated h =
     (if PBTSEnableHeight (PBTS params) \<noteq> 0 then Inr (Some PBTSAlreadyEnabled)
      else
        (case updated of None \<Rightarrow> Inl NilPointerDereference
         | Some u \<Rightarrow>
           (case pbPbts u of None \<Rightarrow> Inl NilPointerDereference
            | Some pbts \<Rightarrow>
              if pbPbtsEnableHeight pbts \<le>s h
                then Inr (Some (PBTSPastHeight (PBTSEnableHeight (PBTS params)) h))
              else Inr None)))"

definition ValidateUpdate ::
  "ConsensusParams \<Rightarrow> pbConsensusParams option \<Rightarrow> int64 \<Rightarrow> panic + error option" where
  "ValidateUpdate params updated h =
     (case updated of None \<Rightarrow> Inl NilPointerDereference
      | Some u \<Rightarrow>
        (case (if pbAbci u \<noteq> None then validateUpdateABCI params updated h else Inr None) of
           Inl p \<Rightarrow> Inl p
         | Inr (Some err) \<Rightarrow> Inr (Some err)
         | Inr None \<Rightarrow>
             if pbPbts u \<noteq> None then validateUpdatePBTS params updated h else Inr None))"

subsection \<open>Hash\<close>

text \<open>
  The marshaller of \<^verbatim>\<open>cmtproto.HashedParams\<close> and the hasher of \<^verbatim>\<open>crypto/tmhash\<close> are not
  among the sources: they are parameters of the model. A hasher has a state of type \<open>'h\<close>;
  \<open>Write\<close> may fail with an error, as its Go signature allows, and \<open>Sum\<close> appends the
  digest of what was written to the bytes it is given.
\<close>

record 'h hash_library =
  Marshal :: "HashedParams \<Rightarrow> error + byte list"
  tmhash_New :: 'h
  Write :: "'h \<Rightarrow> byte list \<Rightarrow> error + 'h"
  Sum :: "'h \<Rightarrow> byte list \<Rightarrow> byte list"

definition Hash :: "'h hash_library \<Rightarrow> ConsensusParams \<Rightarrow> panic + byte list" where
  "Hash L params =
     (let hasher = tmhash_New L;
          hp = \<lparr>BlockMaxBytes = MaxBytes (Block params), BlockMaxGas = MaxGas (Block params)\<rparr>
      in case Marshal L hp of
           Inl err \<Rightarrow> Inl (PanicError err)
         | Inr bz \<Rightarrow>
             (case Write L hasher bz of
                Inl err \<Rightarrow> Inl (PanicError err)
              | Inr hasher' \<Rightarrow> Inr (Sum L hasher' [])))"

subsection \<open>Update\<close>

text \<open>
  \<^verbatim>\<open>Update\<close> is a sequence of guarded blocks, one for each sub-group of the delta; each block
  is a function here, named after the sub-group it assigns. A block leaves \<open>res\<close> as it is
  when its sub-message is nil. The blocks for Abci, Synchrony and Pbts are the same statements
  in \<^verbatim>\<open>ConsensusParamsFromProto\<close>, which uses the same functions.
\<close>

definition assignBlock :: "pbBlockParams option \<Rightarrow> ConsensusParams \<Rightarrow> ConsensusParams" where
  "assignBlock m res =
     (case m of None \<Rightarrow> res
      | Some b \<Rightarrow> res\<lparr>Block := (Block res)\<lparr>MaxBytes := pbMaxBytes b, MaxGas := pbMaxGas b\<rparr>\<rparr>)"

definition assignEvidence :: "pbEvidenceParams option \<Rightarrow> ConsensusParams \<Rightarrow> ConsensusParams" where
  "assignEvidence m res =
     (case m of None \<Rightarrow> res
      | Some e \<Rightarrow> res\<lparr>Evidence := (Evidence res)
                     \<lparr>MaxAgeNumBlocks := pbMaxAgeNumBlocks e,
                      MaxAgeDuration := pbMaxAgeDuration e,
                      EvidenceMaxBytes := pbEvidenceMaxBytes e\<rparr>\<rparr>)"

text \<open>
  The only block that touches memory: the delta's key types are copied into fresh cells, and
  the result gets the slice of the copy.
\<close>

definition assignValidator ::
  "pbValidatorParams option \<Rightarrow> ConsensusParams \<times> memory \<Rightarrow> ConsensusParams \<times> memory" where
  "assignValidator m rM =
     (case m of None \<Rightarrow> rM
      | Some v \<Rightarrow>
          let (res, M) = rM;
              (s, M') = append_to_empty M (pbPubKeyTypes v)
          in (res\<lparr>Validator := (Validator res)\<lparr>PubKeyTypes := s\<rparr>\<rparr>, M'))"

definition assignVersion :: "pbVersionParams option \<Rightarrow> ConsensusParams \<Rightarrow> ConsensusParams" where
  "assignVersion m res =
     (case m of None \<Rightarrow> res
      | Some v \<Rightarrow> res\<lparr>Version := (Version res)\<lparr>App := pbApp v\<rparr>\<rparr>)"

definition assignAbci :: "pbABCIParams option \<Rightarrow> ConsensusParams \<Rightarrow> ConsensusParams" where
  "assignAbci m res =
     (case m of None \<Rightarrow> res
      | Some _ \<Rightarrow> res\<lparr>ABCI := (ABCI res)
                     \<lparr>VoteExtensionsEnableHeight := GetVoteExtensionsEnableHeight m\<rparr>\<rparr>)"

text \<open>
  Inside the Synchrony block each duration is assigned only when its pointer is not nil; the
  value assigned is read through the pointer the accessor returns. That pointer is the one
  the guard has tested, so the dereference never meets nil and the \<open>None\<close> case below is
  never taken inside the block.
\<close>

definition assignMessageDelay :: "pbSynchronyParams option \<Rightarrow> ConsensusParams \<Rightarrow> ConsensusParams" where
  "assignMessageDelay m res =
     (case GetMessageDelay m of None \<Rightarrow> res
      | Some d \<Rightarrow> res\<lparr>Synchrony := (Synchrony res)\<lparr>MessageDelay := d\<rparr>\<rparr>)"

definition assignPrecision :: "pbSynchronyParams option \<Rightarrow> ConsensusParams \<Rightarrow> ConsensusParams" where
  "assignPrecision m res =
     (case GetPrecision m of None \<Rightarrow> res
      | Some d \<Rightarrow> res\<lparr>Synchrony := (Synchrony res)\<lparr>Precision := d\<rparr>\<rparr>)"

definition assignSynchrony :: "pbSynchronyParams option \<Rightarrow> ConsensusParams \<Rightarrow> ConsensusParams" where
  "assignSynchrony m res =
     (case m of None \<Rightarrow> res
      | Some s \<Rightarrow>
          let res = (if pbMessageDelay s \<noteq> None then assignMessageDelay m res else res)
          in if pbPrecision s \<noteq> None then assignPrecision m res else res)"

definition assignPbts :: "pbPBTSParams option \<Rightarrow> ConsensusParams \<Rightarrow> ConsensusParams" where
  "assignPbts m res =
     (case m of None \<Rightarrow> res
      | Some _ \<Rightarrow> res\<lparr>PBTS := (PBTS res)\<lparr>PBTSEnableHeight := GetPbtsEnableHeight m\<rparr>\<rparr>)"

text \<open>
  The receiver is passed by value, so \<open>res\<close> starts as a copy of the struct; the copy's
  \<^verbatim>\<open>PubKeyTypes\<close> is the same slice header and shows the same cells. \<open>Update\<close> takes the
  memory and returns the new one together with the result.
\<close>

definition Update ::
  "memory \<Rightarrow> ConsensusParams \<Rightarrow> pbConsensusParams option \<Rightarrow> ConsensusParams \<times> memory" where
  "Update M params params2 =
     (let res = params in
      case params2 of None \<Rightarrow> (res, M)
      | Some p2 \<Rightarrow>
        let res = assignBlock (pbBlock p2) res;
            res = assignEvidence (pbEvidence p2) res;
            (res, M) = assignValidator (pbValidator p2) (res, M);
            res = assignVersion (pbVersion p2) res;
            res = assignAbci (pbAbci p2) res;
            res = assignSynchrony (pbSynchrony p2) res;
            res = assignPbts (pbPbts p2) res
        in (res, M))"

subsection \<open>ToProto and ConsensusParamsFromProto\<close>

text \<open>
  \<^verbatim>\<open>ToProto\<close> has a pointer receiver: on nil, reading \<^verbatim>\<open>params.Block\<close> panics. The message
  gets the receiver's slice header, not a copy of its cells.
\<close>

definition ToProto :: "ConsensusParams option \<Rightarrow> panic + pbConsensusParams" where
  "ToProto params =
     (case params of None \<Rightarrow> Inl NilPointerDereference
      | Some p \<Rightarrow> Inr
         \<lparr>pbBlock = Some \<lparr>pbMaxBytes = MaxBytes (Block p), pbMaxGas = MaxGas (Block p)\<rparr>,
          pbEvidence = Some \<lparr>pbMaxAgeNumBlocks = MaxAgeNumBlocks (Evidence p),
                             pbMaxAgeDuration = MaxAgeDuration (Evidence p),
                             pbEvidenceMaxBytes = EvidenceMaxBytes (Evidence p)\<rparr>,
          pbValidator = Some \<lparr>pbPubKeyTypes = PubKeyTypes (Validator p)\<rparr>,
          pbVersion = Some \<lparr>pbApp = App (Version p)\<rparr>,
          pbAbci = Some \<lparr>pbVoteExtensionsEnableHeight = VoteExtensionsEnableHeight (ABCI p)\<rparr>,
          pbSynchrony = Some \<lparr>pbPrecision = Some (Precision (Synchrony p)),
                              pbMessageDelay = Some (MessageDelay (Synchrony p))\<rparr>,
          pbPbts = Some \<lparr>pbPbtsEnableHeight = PBTSEnableHeight (PBTS p)\<rparr>\<rparr>)"

text \<open>
  \<^verbatim>\<open>ConsensusParamsFromProto\<close> reads the Block, Evidence, Validator and Version sub-messages
  without a nil check: a nil one panics. The composite literal leaves \<^verbatim>\<open>ABCI\<close>,
  \<^verbatim>\<open>Synchrony\<close> and \<^verbatim>\<open>PBTS\<close> at their zero values, which the three guarded blocks then
  overwrite.
\<close>

definition ConsensusParamsFromProto :: "pbConsensusParams \<Rightarrow> panic + ConsensusParams" where
  "ConsensusParamsFromProto pbParams =
     (case pbBlock pbParams of None \<Rightarrow> Inl NilPointerDereference
      | Some b \<Rightarrow>
     (case pbEvidence pbParams of None \<Rightarrow> Inl NilPointerDereference
      | Some e \<Rightarrow>
     (case pbValidator pbParams of None \<Rightarrow> Inl NilPointerDereference
      | Some v \<Rightarrow>
     (case pbVersion pbParams of None \<Rightarrow> Inl NilPointerDereference
      | Some ver \<Rightarrow>
        let c = \<lparr>Block = \<lparr>MaxBytes = pbMaxBytes b, MaxGas = pbMaxGas b\<rparr>,
                 Evidence = \<lparr>MaxAgeNumBlocks = pbMaxAgeNumBlocks e,
                             MaxAgeDuration = pbMaxAgeDuration e,
                             EvidenceMaxBytes = pbEvidenceMaxBytes e\<rparr>,
                 Validator = \<lparr>PubKeyTypes = pbPubKeyTypes v\<rparr>,
                 Version = \<lparr>App = pbApp ver\<rparr>,
                 ABCI = \<lparr>VoteExtensionsEnableHeight = 0\<rparr>,
                 Synchrony = \<lparr>Precision = 0, MessageDelay = 0\<rparr>,
                 PBTS = \<lparr>PBTSEnableHeight = 0\<rparr>\<rparr>;
            c = assignAbci (pbAbci pbParams) c;
            c = assignSynchrony (pbSynchrony pbParams) c;
            c = assignPbts (pbPbts pbParams) c
        in Inr c))))"

subsection \<open>Concrete inputs\<close>

text \<open>
  The values the two key-type constants and their display names have in the packages they come
  from, an empty memory, the default parameter set allocated in it with chosen activation
  heights (as \<^verbatim>\<open>makeParams\<close> of the tests builds one), and the delta with no sub-message.
\<close>

definition example_keys :: key_constants where
  "example_keys =
     \<lparr>ed25519_KeyType = ''ed25519'', ed25519_PubKeyName = ''tendermint/PubKeyEd25519'',
      secp256k1_KeyType = ''secp256k1'', secp256k1_PubKeyName = ''tendermint/PubKeySecp256k1''\<rparr>"

definition empty_memory :: memory where
  "empty_memory = \<lparr>cell = (\<lambda>_. []), brk = 0\<rparr>"

definition makeParams :: "int64 \<Rightarrow> int64 \<Rightarrow> ConsensusParams" where
  "makeParams voteExtensionHeight pbtsHeight =
     (fst (DefaultConsensusParams example_keys empty_memory))
       \<lparr>ABCI := \<lparr>VoteExtensionsEnableHeight = voteExtensionHeight\<rparr>,
        PBTS := \<lparr>PBTSEnableHeight = pbtsHeight\<rparr>\<rparr>"

definition example_memory :: memory where
  "example_memory = snd (DefaultConsensusParams example_keys empty_memory)"

definition empty_delta :: pbConsensusParams where
  "empty_delta = \<lparr>pbBlock = None, pbEvidence = None, pbValidator = None, pbVersion = None,
                   pbAbci = None, pbSynchrony = None, pbPbts = None\<rparr>"

text \<open>
  A stand-in for the marshaller and the hasher, to run \<open>Hash\<close> on concrete inputs: it
  marshals the low byte of each field and its digest is what was written.
\<close>

definition example_library :: "byte list hash_library" where
  "example_library =
     \<lparr>Marshal = (\<lambda>hp. Inr [ucast (BlockMaxBytes hp), ucast (BlockMaxGas hp)]),
      tmhash_New = [],
      Write = (\<lambda>h bz. Inr (h @ bz)),
      Sum = (\<lambda>h b. b @ h)\<rparr>"

section \<open>Properties\<close>

subsection \<open>Auxiliary facts\<close>

text \<open>Signed comparison of 64-bit words, read through \<open>sint\<close>.\<close>

lemma sint_eq_iff: "sint (x :: int64) = sint y \<longleftrightarrow> x = y"
  using word_eq_iff_signed [of x y, where ?'a = int] by simp

lemma int64_eq_minus_1_iff: "(x :: int64) = - 1 \<longleftrightarrow> sint x = - 1"
  using sint_eq_iff [of x "- 1"] by simp

lemma int64_eq_0_iff: "(x :: int64) = 0 \<longleftrightarrow> sint x = 0"
  using sint_eq_iff [of x 0] by simp

lemma sint_MaxBlockSizeBytes: "sint MaxBlockSizeBytes = 104857600"
  by (simp add: MaxBlockSizeBytes_def)

text \<open>Unfolding the concrete inputs.\<close>

lemmas example_defs =
  makeParams_def example_memory_def example_keys_def empty_memory_def empty_delta_def
  DefaultConsensusParams_def DefaultValidatorParams_def DefaultBlockParams_def
  DefaultEvidenceParams_def DefaultVersionParams_def DefaultABCIParams_def
  DefaultSynchronyParams_def DefaultPBTSParams_def ABCIPubKeyTypeEd25519_def
  ABCIPubKeyTypeSecp256k1_def alloc_copy_def

lemma makeParams_heights:
  "ABCI (makeParams v p) = \<lparr>VoteExtensionsEnableHeight = v\<rparr>"
  "PBTS (makeParams v p) = \<lparr>PBTSEnableHeight = p\<rparr>"
  by (simp_all add: makeParams_def)

text \<open>The two per-feature checks on a delta that has the sub-message they read.\<close>

lemma validateUpdateABCI_present:
  "pbAbci u = Some abci \<Longrightarrow>
   validateUpdateABCI params (Some u) h =
     Inr (if VoteExtensionsEnableHeight (ABCI params) = pbVoteExtensionsEnableHeight abci
            then None
          else if VoteExtensionsEnableHeight (ABCI params) \<noteq> 0
                  \<and> pbVoteExtensionsEnableHeight abci = 0
            then Some VoteExtensionsCannotBeDisabled
          else if sint (pbVoteExtensionsEnableHeight abci) \<le> sint h
            then Some (VoteExtensionsPastHeight (VoteExtensionsEnableHeight (ABCI params)) h)
          else if sint (VoteExtensionsEnableHeight (ABCI params)) \<le> sint h
            then Some (VoteExtensionsInitialHeightOccurred
                         (VoteExtensionsEnableHeight (ABCI params)) h)
          else None)"
  by (simp add: validateUpdateABCI_def word_sle_eq)

lemma validateUpdatePBTS_present:
  "pbPbts u = Some pbts \<Longrightarrow>
   validateUpdatePBTS params (Some u) h =
     Inr (if PBTSEnableHeight (PBTS params) \<noteq> 0 then Some PBTSAlreadyEnabled
          else if sint (pbPbtsEnableHeight pbts) \<le> sint h
            then Some (PBTSPastHeight (PBTSEnableHeight (PBTS params)) h)
          else None)"
  by (simp add: validateUpdatePBTS_def word_sle_eq)

text \<open>\<open>ValidateUpdate\<close> on a delta that is not nil never panics.\<close>

lemma ValidateUpdate_no_panic: "\<exists>r. ValidateUpdate params (Some u) h = Inr r"
proof (cases "pbAbci u")
  case None
  then show ?thesis
    by (cases "pbPbts u") (simp_all add: ValidateUpdate_def validateUpdatePBTS_present)
next
  case (Some abci)
  then show ?thesis
    by (cases "pbPbts u")
       (simp_all add: ValidateUpdate_def validateUpdateABCI_present validateUpdatePBTS_present)
qed

text \<open>
  With the current vote-extension height at 0, the last check of \<open>validateUpdateABCI\<close>
  compares 0 with the height: every delta that proposes a height after \<open>h\<close> is rejected.
\<close>

lemma ValidateUpdate_abci_from_zero:
  assumes "VoteExtensionsEnableHeight (ABCI params) = 0" and "1 \<le> sint h"
    and "pbAbci u = Some abci" and "sint h < sint (pbVoteExtensionsEnableHeight abci)"
  shows "ValidateUpdate params (Some u) h = Inr (Some (VoteExtensionsInitialHeightOccurred 0 h))"
  using assms by (auto simp add: ValidateUpdate_def validateUpdateABCI_present)

subsection \<open>ValidateUpdate: the vote-extension height\<close>

text \<open>
  Claim C1: with the current \<open>VoteExtensionsEnableHeight\<close> at 0 (disabled) and \<open>h \<ge> 1\<close>, a
  delta whose Abci sub-message proposes a height strictly greater than \<open>h\<close> is accepted; in
  particular current value 0, \<open>h = 10\<close>, proposed value 50.

  The code does not do this. At that input the first three checks of \<open>validateUpdateABCI\<close>
  pass and the fourth, \<^verbatim>\<open>params.ABCI.VoteExtensionsEnableHeight <= h\<close>, holds because
  \<open>0 \<le> 10\<close>: the delta is rejected with "cannot be modified once the initial height has
  occurred", although vote extensions are not enabled at height 10. The check has no
  \<^verbatim>\<open>!= 0\<close> guard, unlike the second check of the same function and unlike
  \<open>validateUpdatePBTS\<close>, which lets a height of 0 be set to a later one
  (\<open>ValidateUpdate_abci_from_zero\<close> is the general fact).
\<close>

theorem ValidateUpdate_enable_from_zero_rejected:
  "ValidateUpdate (makeParams 0 0)
     (Some (empty_delta\<lparr>pbAbci := Some \<lparr>pbVoteExtensionsEnableHeight = 50\<rparr>\<rparr>)) 10
     = Inr (Some (VoteExtensionsInitialHeightOccurred 0 10))
   \<and> VoteExtensionsEnabled (ABCI (makeParams 0 0)) 10 = Inr False
   \<and> ValidateUpdate (makeParams 0 0)
        (Some (empty_delta\<lparr>pbPbts := Some \<lparr>pbPbtsEnableHeight = 50\<rparr>\<rparr>)) 10 = Inr None"
  by (simp add: ValidateUpdate_def validateUpdateABCI_present validateUpdatePBTS_present
        makeParams_heights empty_delta_def VoteExtensionsEnabled_def word_sless_alt)

text \<open>
  Claim C2: when the current height \<open>cur\<close> satisfies \<open>cur \<noteq> 0\<close> and \<open>cur \<le> h\<close>, every delta
  whose Abci sub-message is present is rejected, whatever it proposes, also one that proposes
  \<open>cur\<close> again.

  As stated this fails: the first check of \<open>validateUpdateABCI\<close> returns nil when the
  proposed height equals the current one. Current height 50, \<open>h = 60\<close>, proposed height 50 is
  accepted.
\<close>

theorem ValidateUpdate_abci_reproposal_counterexample:
  "VoteExtensionsEnableHeight (ABCI (makeParams 50 0)) \<noteq> 0
   \<and> sint (VoteExtensionsEnableHeight (ABCI (makeParams 50 0))) \<le> sint (60 :: int64)
   \<and> 1 \<le> sint (60 :: int64)
   \<and> pbAbci (empty_delta\<lparr>pbAbci := Some \<lparr>pbVoteExtensionsEnableHeight = 50\<rparr>\<rparr>)
       = Some \<lparr>pbVoteExtensionsEnableHeight = 50\<rparr>
   \<and> ValidateUpdate (makeParams 50 0)
        (Some (empty_delta\<lparr>pbAbci := Some \<lparr>pbVoteExtensionsEnableHeight = 50\<rparr>\<rparr>)) 60
       = Inr None"
  by (simp add: ValidateUpdate_def validateUpdateABCI_present makeParams_heights empty_delta_def)

text \<open>
  Claim C2, as it holds: when \<open>cur \<noteq> 0\<close> and \<open>cur \<le> h\<close>, every delta whose Abci sub-message
  proposes a height different from \<open>cur\<close> is rejected; a delta that proposes \<open>cur\<close> itself
  passes the vote-extension check, and \<open>ValidateUpdate\<close> then returns what the PBTS check
  returns when the Pbts sub-message is present, and nil otherwise. The height \<open>h\<close> is not
  restricted: the code never tests \<open>h \<ge> 1\<close>.
\<close>

theorem ValidateUpdate_abci_active_frozen:
  assumes "VoteExtensionsEnableHeight (ABCI params) \<noteq> 0"
    and "sint (VoteExtensionsEnableHeight (ABCI params)) \<le> sint h"
    and "pbAbci u = Some abci"
  shows "(pbVoteExtensionsEnableHeight abci \<noteq> VoteExtensionsEnableHeight (ABCI params) \<longrightarrow>
            (\<exists>err. ValidateUpdate params (Some u) h = Inr (Some err)))
       \<and> (pbVoteExtensionsEnableHeight abci = VoteExtensionsEnableHeight (ABCI params) \<longrightarrow>
            validateUpdateABCI params (Some u) h = Inr None
            \<and> ValidateUpdate params (Some u) h =
                (if pbPbts u \<noteq> None then validateUpdatePBTS params (Some u) h else Inr None))"
  using assms by (auto simp add: ValidateUpdate_def validateUpdateABCI_present)

theorem ValidateUpdate_abci_active_frozen_witness:
  "(\<exists>err. ValidateUpdate (makeParams 50 0)
            (Some (empty_delta\<lparr>pbAbci := Some \<lparr>pbVoteExtensionsEnableHeight = 200\<rparr>\<rparr>)) 60
          = Inr (Some err))
   \<and> ValidateUpdate (makeParams 50 0)
        (Some (empty_delta\<lparr>pbAbci := Some \<lparr>pbVoteExtensionsEnableHeight = 50\<rparr>\<rparr>)) 60
       = Inr None"
  using ValidateUpdate_abci_active_frozen
          [of "makeParams 50 0" 60
              "empty_delta\<lparr>pbAbci := Some \<lparr>pbVoteExtensionsEnableHeight = 200\<rparr>\<rparr>"
              "\<lparr>pbVoteExtensionsEnableHeight = 200\<rparr>"]
        ValidateUpdate_abci_active_frozen
          [of "makeParams 50 0" 60
              "empty_delta\<lparr>pbAbci := Some \<lparr>pbVoteExtensionsEnableHeight = 50\<rparr>\<rparr>"
              "\<lparr>pbVoteExtensionsEnableHeight = 50\<rparr>"]
  by (simp add: makeParams_heights empty_delta_def)

text \<open>
  Claim C4: when the current \<open>VoteExtensionsEnableHeight\<close> is not 0, a delta whose Abci
  sub-message proposes 0 is rejected with the "cannot be disabled" error, at every height
  (in particular \<open>h \<ge> 1\<close>).
\<close>

theorem ValidateUpdate_abci_cannot_disable:
  assumes "VoteExtensionsEnableHeight (ABCI params) \<noteq> 0"
    and "pbAbci u = Some abci" and "pbVoteExtensionsEnableHeight abci = 0"
  shows "ValidateUpdate params (Some u) h = Inr (Some VoteExtensionsCannotBeDisabled)"
  using assms by (simp add: ValidateUpdate_def validateUpdateABCI_present)

theorem ValidateUpdate_abci_cannot_disable_witness:
  "ValidateUpdate (makeParams 50 0)
     (Some (empty_delta\<lparr>pbAbci := Some \<lparr>pbVoteExtensionsEnableHeight = 0\<rparr>\<rparr>)) 10
   = Inr (Some VoteExtensionsCannotBeDisabled)"
  using ValidateUpdate_abci_cannot_disable
          [of "makeParams 50 0"
              "empty_delta\<lparr>pbAbci := Some \<lparr>pbVoteExtensionsEnableHeight = 0\<rparr>\<rparr>"
              "\<lparr>pbVoteExtensionsEnableHeight = 0\<rparr>" 10]
  by (simp add: makeParams_heights empty_delta_def)


subsection \<open>ValidateUpdate: the PBTS height\<close>

text \<open>
  Claim C3: a delta whose Pbts sub-message is present is rejected ("already enabled") when
  the current \<open>PBTSEnableHeight\<close> is not 0, whatever it proposes and whether or not that height
  has been reached; when the current height is 0 it is accepted if and only if the proposed
  height is strictly greater than \<open>h\<close>.

  As stated, for every delta with a Pbts sub-message, this fails: \<open>ValidateUpdate\<close> runs the
  vote-extension check first and returns its error at once. With current heights 50
  (vote extensions) and 0 (PBTS) at \<open>h = 10\<close>, a delta proposing 0 for the vote-extension height
  and 20 for the PBTS height is rejected although \<open>20 > 10\<close>; with a current PBTS height of 5
  the same delta is rejected with the vote-extension error, not with "already enabled".
\<close>

theorem ValidateUpdate_pbts_counterexample:
  "PBTSEnableHeight (PBTS (makeParams 50 0)) = 0
   \<and> 1 \<le> sint (10 :: int64)
   \<and> pbPbts (empty_delta\<lparr>pbAbci := Some \<lparr>pbVoteExtensionsEnableHeight = 0\<rparr>,
                           pbPbts := Some \<lparr>pbPbtsEnableHeight = 20\<rparr>\<rparr>)
       = Some \<lparr>pbPbtsEnableHeight = 20\<rparr>
   \<and> sint (10 :: int64) < sint (pbPbtsEnableHeight \<lparr>pbPbtsEnableHeight = 20\<rparr>)
   \<and> ValidateUpdate (makeParams 50 0)
        (Some (empty_delta\<lparr>pbAbci := Some \<lparr>pbVoteExtensionsEnableHeight = 0\<rparr>,
                            pbPbts := Some \<lparr>pbPbtsEnableHeight = 20\<rparr>\<rparr>)) 10
       = Inr (Some VoteExtensionsCannotBeDisabled)
   \<and> PBTSEnableHeight (PBTS (makeParams 50 5)) \<noteq> 0
   \<and> ValidateUpdate (makeParams 50 5)
        (Some (empty_delta\<lparr>pbAbci := Some \<lparr>pbVoteExtensionsEnableHeight = 0\<rparr>,
                            pbPbts := Some \<lparr>pbPbtsEnableHeight = 20\<rparr>\<rparr>)) 10
       = Inr (Some VoteExtensionsCannotBeDisabled)"
  by (simp add: ValidateUpdate_def validateUpdateABCI_present makeParams_heights empty_delta_def)

text \<open>
  Claim C3, as it holds, for a delta whose Pbts sub-message is present, at every height:
  \<^item> when the current \<open>PBTSEnableHeight\<close> is not 0, the delta is rejected;
  \<^item> when the Abci sub-message is absent or passes the vote-extension check, the verdict is
    that of the PBTS check: "already enabled" when the current \<open>PBTSEnableHeight\<close> is not 0,
    whatever is proposed and whether or not the scheduled height has been reached; otherwise
    success if the proposed height is strictly greater than \<open>h\<close>, and the "past height" error
    if it is not;
  \<^item> when the Abci sub-message is present and fails the vote-extension check, the delta is
    rejected with that check's error.
\<close>

theorem ValidateUpdate_pbts_guard:
  assumes "pbPbts u = Some pbts"
  shows "(PBTSEnableHeight (PBTS params) \<noteq> 0 \<longrightarrow>
            (\<exists>err. ValidateUpdate params (Some u) h = Inr (Some err)))
       \<and> (pbAbci u = None \<or> validateUpdateABCI params (Some u) h = Inr None \<longrightarrow>
            ValidateUpdate params (Some u) h =
              Inr (if PBTSEnableHeight (PBTS params) \<noteq> 0 then Some PBTSAlreadyEnabled
                   else if sint h < sint (pbPbtsEnableHeight pbts) then None
                   else Some (PBTSPastHeight (PBTSEnableHeight (PBTS params)) h)))
       \<and> (pbAbci u \<noteq> None \<and> validateUpdateABCI params (Some u) h \<noteq> Inr None \<longrightarrow>
            ValidateUpdate params (Some u) h = validateUpdateABCI params (Some u) h)"
proof (cases "pbAbci u")
  case None
  with assms show ?thesis
    by (simp add: ValidateUpdate_def validateUpdatePBTS_present)
next
  case (Some abci)
  obtain r where r: "validateUpdateABCI params (Some u) h = Inr r"
    using validateUpdateABCI_present [OF Some] by blast
  show ?thesis
  proof (cases r)
    case None
    with assms Some r show ?thesis
      by (simp add: ValidateUpdate_def validateUpdatePBTS_present)
  next
    case (Some err)
    with assms \<open>pbAbci u = Some abci\<close> r show ?thesis
      by (simp add: ValidateUpdate_def)
  qed
qed

theorem ValidateUpdate_pbts_guard_witness:
  "ValidateUpdate (makeParams 0 100)
     (Some (empty_delta\<lparr>pbPbts := Some \<lparr>pbPbtsEnableHeight = 200\<rparr>\<rparr>)) 10
     = Inr (Some PBTSAlreadyEnabled)
   \<and> ValidateUpdate (makeParams 0 5)
       (Some (empty_delta\<lparr>pbPbts := Some \<lparr>pbPbtsEnableHeight = 5\<rparr>\<rparr>)) 10
       = Inr (Some PBTSAlreadyEnabled)
   \<and> ValidateUpdate (makeParams 0 0)
       (Some (empty_delta\<lparr>pbPbts := Some \<lparr>pbPbtsEnableHeight = 11\<rparr>\<rparr>)) 10 = Inr None
   \<and> ValidateUpdate (makeParams 0 0)
       (Some (empty_delta\<lparr>pbPbts := Some \<lparr>pbPbtsEnableHeight = 10\<rparr>\<rparr>)) 10
       = Inr (Some (PBTSPastHeight 0 10))
   \<and> ValidateUpdate (makeParams 50 0)
       (Some (empty_delta\<lparr>pbAbci := Some \<lparr>pbVoteExtensionsEnableHeight = 50\<rparr>,
                           pbPbts := Some \<lparr>pbPbtsEnableHeight = 11\<rparr>\<rparr>)) 10 = Inr None
   \<and> ValidateUpdate (makeParams 50 0)
       (Some (empty_delta\<lparr>pbAbci := Some \<lparr>pbVoteExtensionsEnableHeight = 0\<rparr>,
                           pbPbts := Some \<lparr>pbPbtsEnableHeight = 11\<rparr>\<rparr>)) 10
       = Inr (Some VoteExtensionsCannotBeDisabled)"
  using ValidateUpdate_pbts_guard
          [of "empty_delta\<lparr>pbPbts := Some \<lparr>pbPbtsEnableHeight = 200\<rparr>\<rparr>"
              "\<lparr>pbPbtsEnableHeight = 200\<rparr>" "makeParams 0 100" 10]
        ValidateUpdate_pbts_guard
          [of "empty_delta\<lparr>pbPbts := Some \<lparr>pbPbtsEnableHeight = 5\<rparr>\<rparr>"
              "\<lparr>pbPbtsEnableHeight = 5\<rparr>" "makeParams 0 5" 10]
        ValidateUpdate_pbts_guard
          [of "empty_delta\<lparr>pbPbts := Some \<lparr>pbPbtsEnableHeight = 11\<rparr>\<rparr>"
              "\<lparr>pbPbtsEnableHeight = 11\<rparr>" "makeParams 0 0" 10]
        ValidateUpdate_pbts_guard
          [of "empty_delta\<lparr>pbPbts := Some \<lparr>pbPbtsEnableHeight = 10\<rparr>\<rparr>"
              "\<lparr>pbPbtsEnableHeight = 10\<rparr>" "makeParams 0 0" 10]
        ValidateUpdate_pbts_guard
          [of "empty_delta\<lparr>pbAbci := Some \<lparr>pbVoteExtensionsEnableHeight = 50\<rparr>,
                           pbPbts := Some \<lparr>pbPbtsEnableHeight = 11\<rparr>\<rparr>"
              "\<lparr>pbPbtsEnableHeight = 11\<rparr>" "makeParams 50 0" 10]
        ValidateUpdate_pbts_guard
          [of "empty_delta\<lparr>pbAbci := Some \<lparr>pbVoteExtensionsEnableHeight = 0\<rparr>,
                           pbPbts := Some \<lparr>pbPbtsEnableHeight = 11\<rparr>\<rparr>"
              "\<lparr>pbPbtsEnableHeight = 11\<rparr>" "makeParams 50 0" 10]
  by (simp add: makeParams_heights empty_delta_def validateUpdateABCI_present)

subsection \<open>ValidateUpdate: the other sub-groups\<close>

text \<open>
  Claim C10: \<open>ValidateUpdate\<close> returns success for every delta whose Abci and Pbts
  sub-messages are both absent, for every current parameter set and every height (in
  particular \<open>h \<ge> 1\<close>): what the delta carries for Block, Evidence, Validator, Version or
  Synchrony is not looked at, even when the merged set would fail \<open>ValidateBasic\<close>.
\<close>

theorem ValidateUpdate_ignores_other_groups:
  assumes "pbAbci u = None" and "pbPbts u = None"
  shows "ValidateUpdate params (Some u) h = Inr None"
  using assms by (simp add: ValidateUpdate_def)

text \<open>
  At a delta that sets \<^verbatim>\<open>Block.MaxBytes\<close> to 0: the update is accepted and the merged set is
  refused by \<open>ValidateBasic\<close>.
\<close>

theorem ValidateUpdate_ignores_other_groups_witness:
  "ValidateUpdate (makeParams 0 0)
     (Some (empty_delta\<lparr>pbBlock := Some \<lparr>pbMaxBytes = 0, pbMaxGas = 0\<rparr>\<rparr>)) 1 = Inr None
   \<and> ValidateBasic example_keys example_memory
       (fst (Update example_memory (makeParams 0 0)
               (Some (empty_delta\<lparr>pbBlock := Some \<lparr>pbMaxBytes = 0, pbMaxGas = 0\<rparr>\<rparr>))))
       = Some BlockMaxBytesZero"
proof -
  have "ValidateBasic example_keys example_memory
       (fst (Update example_memory (makeParams 0 0)
               (Some (empty_delta\<lparr>pbBlock := Some \<lparr>pbMaxBytes = 0, pbMaxGas = 0\<rparr>\<rparr>))))
       = Some BlockMaxBytesZero"
    by (simp add: Update_def assignBlock_def assignEvidence_def assignValidator_def
          assignVersion_def assignAbci_def assignSynchrony_def assignPbts_def empty_delta_def
          ValidateBasic_def Let_def)
  then show ?thesis
    using ValidateUpdate_ignores_other_groups
            [of "empty_delta\<lparr>pbBlock := Some \<lparr>pbMaxBytes = 0, pbMaxGas = 0\<rparr>\<rparr>"
                "makeParams 0 0" 1]
    by (simp add: empty_delta_def)
qed

subsection \<open>Activation predicates\<close>

text \<open>
  Claim C8: \<open>VoteExtensionsEnabled a h\<close> panics when \<open>h < 1\<close>; for \<open>h \<ge> 1\<close> it returns false
  when the enable height of \<open>a\<close> is 0, and otherwise whether the enable height is at most \<open>h\<close>.
  \<open>PBTSEnabled\<close> does the same over \<open>PBTSEnableHeight\<close>.
\<close>

theorem activation_predicates:
  "(sint h < 1 \<longrightarrow>
      VoteExtensionsEnabled a h = Inl (PanicError (VoteExtensionsHeightBelowOne h)))
 \<and> (1 \<le> sint h \<longrightarrow> VoteExtensionsEnableHeight a = 0 \<longrightarrow>
      VoteExtensionsEnabled a h = Inr False)
 \<and> (1 \<le> sint h \<longrightarrow> VoteExtensionsEnableHeight a \<noteq> 0 \<longrightarrow>
      VoteExtensionsEnabled a h = Inr (sint (VoteExtensionsEnableHeight a) \<le> sint h))
 \<and> (sint h < 1 \<longrightarrow> PBTSEnabled p h = Inl (PanicError (PBTSHeightBelowOne h)))
 \<and> (1 \<le> sint h \<longrightarrow> PBTSEnableHeight p = 0 \<longrightarrow> PBTSEnabled p h = Inr False)
 \<and> (1 \<le> sint h \<longrightarrow> PBTSEnableHeight p \<noteq> 0 \<longrightarrow>
      PBTSEnabled p h = Inr (sint (PBTSEnableHeight p) \<le> sint h))"
proof (cases "sint h < 1")
  case True
  then have "h <s 1"
    by (simp add: word_sless_alt)
  with True show ?thesis
    by (simp add: VoteExtensionsEnabled_def PBTSEnabled_def)
next
  case False
  then have "\<not> h <s 1"
    by (simp add: word_sless_alt)
  with False show ?thesis
    by (simp add: VoteExtensionsEnabled_def PBTSEnabled_def word_sle_eq)
qed

theorem activation_predicates_witness:
  "VoteExtensionsEnabled \<lparr>VoteExtensionsEnableHeight = 5\<rparr> 0
     = Inl (PanicError (VoteExtensionsHeightBelowOne 0))
 \<and> VoteExtensionsEnabled \<lparr>VoteExtensionsEnableHeight = 0\<rparr> 3 = Inr False
 \<and> VoteExtensionsEnabled \<lparr>VoteExtensionsEnableHeight = 5\<rparr> 7 = Inr True
 \<and> VoteExtensionsEnabled \<lparr>VoteExtensionsEnableHeight = 5\<rparr> 3 = Inr False
 \<and> PBTSEnabled \<lparr>PBTSEnableHeight = 5\<rparr> (- 2) = Inl (PanicError (PBTSHeightBelowOne (- 2)))
 \<and> PBTSEnabled \<lparr>PBTSEnableHeight = 0\<rparr> 3 = Inr False
 \<and> PBTSEnabled \<lparr>PBTSEnableHeight = 5\<rparr> 5 = Inr True
 \<and> PBTSEnabled \<lparr>PBTSEnableHeight = 5\<rparr> 4 = Inr False"
  using activation_predicates [where h = 0 and a = "\<lparr>VoteExtensionsEnableHeight = 5\<rparr>"
                                 and p = "\<lparr>PBTSEnableHeight = 0\<rparr>"]
        activation_predicates [where h = 3 and a = "\<lparr>VoteExtensionsEnableHeight = 0\<rparr>"
                                 and p = "\<lparr>PBTSEnableHeight = 0\<rparr>"]
        activation_predicates [where h = 7 and a = "\<lparr>VoteExtensionsEnableHeight = 5\<rparr>"
                                 and p = "\<lparr>PBTSEnableHeight = 0\<rparr>"]
        activation_predicates [where h = 3 and a = "\<lparr>VoteExtensionsEnableHeight = 5\<rparr>"
                                 and p = "\<lparr>PBTSEnableHeight = 0\<rparr>"]
        activation_predicates [where h = "- 2" and a = "\<lparr>VoteExtensionsEnableHeight = 5\<rparr>"
                                 and p = "\<lparr>PBTSEnableHeight = 5\<rparr>"]
        activation_predicates [where h = 5 and a = "\<lparr>VoteExtensionsEnableHeight = 5\<rparr>"
                                 and p = "\<lparr>PBTSEnableHeight = 5\<rparr>"]
        activation_predicates [where h = 4 and a = "\<lparr>VoteExtensionsEnableHeight = 5\<rparr>"
                                 and p = "\<lparr>PBTSEnableHeight = 5\<rparr>"]
  by simp


subsection \<open>ValidateBasic\<close>

lemma checkPubKeyTypes_None_iff: "checkPubKeyTypes reg i ks = None \<longleftrightarrow> set ks \<subseteq> dom reg"
  by (induction ks arbitrary: i) (auto split: option.splits)

lemma dom_ABCIPubKeyTypesToNames:
  "dom (ABCIPubKeyTypesToNames K) = {ABCIPubKeyTypeEd25519 K, ABCIPubKeyTypeSecp256k1 K}"
  by (auto simp add: ABCIPubKeyTypesToNames_def)

text \<open>The parameter sets \<open>ValidateBasic\<close> accepts, field by field.\<close>

lemma ValidateBasic_None_iff:
  "ValidateBasic K M p = None \<longleftrightarrow>
     MaxBytes (Block p) \<noteq> 0 \<and> - 1 \<le> sint (MaxBytes (Block p))
   \<and> sint (MaxBytes (Block p)) \<le> 104857600
   \<and> - 1 \<le> sint (MaxGas (Block p))
   \<and> 0 < sint (MaxAgeNumBlocks (Evidence p))
   \<and> 0 < sint (MaxAgeDuration (Evidence p))
   \<and> sint (EvidenceMaxBytes (Evidence p))
        \<le> (if MaxBytes (Block p) = - 1 then 104857600 else sint (MaxBytes (Block p)))
   \<and> 0 \<le> sint (EvidenceMaxBytes (Evidence p))
   \<and> 0 \<le> sint (VoteExtensionsEnableHeight (ABCI p))
   \<and> 0 < sint (MessageDelay (Synchrony p))
   \<and> 0 < sint (Precision (Synchrony p))
   \<and> 0 \<le> sint (PBTSEnableHeight (PBTS p))
   \<and> len (PubKeyTypes (Validator p)) \<noteq> 0
   \<and> set (elems M (PubKeyTypes (Validator p)))
        \<subseteq> {ABCIPubKeyTypeEd25519 K, ABCIPubKeyTypeSecp256k1 K}"
  unfolding ValidateBasic_def Let_def
  by (simp add: word_sle_eq word_sless_alt checkPubKeyTypes_None_iff sint_MaxBlockSizeBytes
        dom_ABCIPubKeyTypesToNames not_le not_less del: insert_subset)

lemma ValidateBasic_default:
  "ValidateBasic example_keys example_memory (makeParams 0 0) = None"
  by (simp add: ValidateBasic_None_iff example_defs elems_def)

text \<open>
  Claim C9: \<open>ValidateBasic\<close> enforces that every Evidence field (\<^verbatim>\<open>MaxAgeNumBlocks\<close>,
  \<^verbatim>\<open>MaxAgeDuration\<close>, \<^verbatim>\<open>MaxBytes\<close>) is strictly greater than 0; in particular a set with
  \<^verbatim>\<open>Evidence.MaxBytes = 0\<close> and all other fields valid is refused.

  As stated this fails: the check on \<^verbatim>\<open>Evidence.MaxBytes\<close> is \<^verbatim>\<open>< 0\<close> ("must be non
  negative"), so 0 passes. The default set with \<^verbatim>\<open>Evidence.MaxBytes\<close> set to 0 is accepted.
\<close>

theorem ValidateBasic_evidence_zero_counterexample:
  "ValidateBasic example_keys example_memory (makeParams 0 0) = None
   \<and> EvidenceMaxBytes
        (Evidence ((makeParams 0 0)\<lparr>Evidence := (Evidence (makeParams 0 0))
                                      \<lparr>EvidenceMaxBytes := 0\<rparr>\<rparr>)) = 0
   \<and> ValidateBasic example_keys example_memory
        ((makeParams 0 0)\<lparr>Evidence := (Evidence (makeParams 0 0))\<lparr>EvidenceMaxBytes := 0\<rparr>\<rparr>)
       = None"
  by (simp add: ValidateBasic_None_iff example_defs elems_def)

text \<open>
  Claim C9, as it holds: a set that \<open>ValidateBasic\<close> accepts has \<^verbatim>\<open>Evidence.MaxAgeNumBlocks\<close>
  and \<^verbatim>\<open>Evidence.MaxAgeDuration\<close> strictly greater than 0, and \<^verbatim>\<open>Evidence.MaxBytes\<close> at least
  0 and at most the effective block size (\<open>MaxBlockSizeBytes\<close> when \<^verbatim>\<open>Block.MaxBytes\<close> is -1);
  a set with a negative \<^verbatim>\<open>Evidence.MaxBytes\<close> is refused; and an accepted set stays accepted
  when its \<^verbatim>\<open>Evidence.MaxBytes\<close> is set to 0.
\<close>

theorem ValidateBasic_evidence_bounds:
  "(ValidateBasic K M p = None \<longrightarrow>
       0 < sint (MaxAgeNumBlocks (Evidence p))
     \<and> 0 < sint (MaxAgeDuration (Evidence p))
     \<and> 0 \<le> sint (EvidenceMaxBytes (Evidence p))
     \<and> sint (EvidenceMaxBytes (Evidence p))
          \<le> (if MaxBytes (Block p) = - 1 then sint MaxBlockSizeBytes
             else sint (MaxBytes (Block p))))
 \<and> (sint (EvidenceMaxBytes (Evidence p)) < 0 \<longrightarrow> ValidateBasic K M p \<noteq> None)
 \<and> (ValidateBasic K M p = None \<longrightarrow>
       ValidateBasic K M (p\<lparr>Evidence := (Evidence p)\<lparr>EvidenceMaxBytes := 0\<rparr>\<rparr>) = None)"
proof -
  have "0 \<le> (if MaxBytes (Block p) = - 1 then 104857600 else sint (MaxBytes (Block p)))"
    if "MaxBytes (Block p) \<noteq> 0" "- 1 \<le> sint (MaxBytes (Block p))"
    using that by (auto simp add: int64_eq_0_iff int64_eq_minus_1_iff)
  then show ?thesis
    by (simp add: ValidateBasic_None_iff sint_MaxBlockSizeBytes)
qed

theorem ValidateBasic_evidence_bounds_witness:
  "ValidateBasic example_keys example_memory (makeParams 0 0) = None
   \<and> 0 < sint (MaxAgeNumBlocks (Evidence (makeParams 0 0)))
   \<and> 0 < sint (MaxAgeDuration (Evidence (makeParams 0 0)))
   \<and> 0 \<le> sint (EvidenceMaxBytes (Evidence (makeParams 0 0)))
   \<and> ValidateBasic example_keys example_memory
        ((makeParams 0 0)\<lparr>Evidence := (Evidence (makeParams 0 0))\<lparr>EvidenceMaxBytes := 0\<rparr>\<rparr>)
       = None
   \<and> ValidateBasic example_keys example_memory
        ((makeParams 0 0)\<lparr>Evidence := (Evidence (makeParams 0 0))\<lparr>EvidenceMaxBytes := - 1\<rparr>\<rparr>)
       \<noteq> None"
  using ValidateBasic_evidence_bounds [of example_keys example_memory "makeParams 0 0"]
        ValidateBasic_evidence_bounds [of example_keys example_memory
          "(makeParams 0 0)\<lparr>Evidence := (Evidence (makeParams 0 0))\<lparr>EvidenceMaxBytes := - 1\<rparr>\<rparr>"]
        ValidateBasic_default
  by simp


subsection \<open>The codec\<close>

lemmas assign_defs =
  assignBlock_def assignEvidence_def assignValidator_def assignVersion_def assignAbci_def
  assignSynchrony_def assignMessageDelay_def assignPrecision_def assignPbts_def

lemmas getter_defs =
  GetVoteExtensionsEnableHeight_def GetPbtsEnableHeight_def GetMessageDelay_def
  GetPrecision_def

text \<open>
  Under its guard the dereference in the Synchrony block never meets nil: the accessor
  returns the pointer the guard has tested.
\<close>

lemma GetMessageDelay_guarded:
  "pbMessageDelay s \<noteq> None \<Longrightarrow> GetMessageDelay (Some s) \<noteq> None"
  by (simp add: GetMessageDelay_def)

lemma GetPrecision_guarded:
  "pbPrecision s \<noteq> None \<Longrightarrow> GetPrecision (Some s) \<noteq> None"
  by (simp add: GetPrecision_def)

lemma FromProto_ToProto:
  "\<exists>m. ToProto (Some p) = Inr m \<and> ConsensusParamsFromProto m = Inr p"
  by (simp add: ToProto_def ConsensusParamsFromProto_def assign_defs getter_defs)

lemma FromProto_optional_absent:
  assumes "pbBlock m = Some b" and "pbEvidence m = Some e" and "pbValidator m = Some v"
    and "pbVersion m = Some ver"
    and "pbAbci m = None" and "pbSynchrony m = None" and "pbPbts m = None"
  shows "ConsensusParamsFromProto m = Inr
           \<lparr>Block = \<lparr>MaxBytes = pbMaxBytes b, MaxGas = pbMaxGas b\<rparr>,
            Evidence = \<lparr>MaxAgeNumBlocks = pbMaxAgeNumBlocks e,
                        MaxAgeDuration = pbMaxAgeDuration e,
                        EvidenceMaxBytes = pbEvidenceMaxBytes e\<rparr>,
            Validator = \<lparr>PubKeyTypes = pbPubKeyTypes v\<rparr>,
            Version = \<lparr>App = pbApp ver\<rparr>,
            ABCI = \<lparr>VoteExtensionsEnableHeight = 0\<rparr>,
            Synchrony = \<lparr>Precision = 0, MessageDelay = 0\<rparr>,
            PBTS = \<lparr>PBTSEnableHeight = 0\<rparr>\<rparr>"
  using assms by (simp add: ConsensusParamsFromProto_def assign_defs)

lemma FromProto_required_absent:
  "pbBlock m = None \<or> pbEvidence m = None \<or> pbValidator m = None \<or> pbVersion m = None
   \<Longrightarrow> ConsensusParamsFromProto m = Inl NilPointerDereference"
  by (auto simp add: ConsensusParamsFromProto_def split: option.splits)

text \<open>
  Claim C5: for every parameter set \<open>p\<close>, decoding the encoding of \<open>p\<close> gives \<open>p\<close> back; and
  for every wire message whose Abci, Synchrony and Pbts sub-messages are absent,
  \<open>ConsensusParamsFromProto\<close> yields a set whose \<^verbatim>\<open>VoteExtensionsEnableHeight\<close>,
  \<^verbatim>\<open>Synchrony.Precision\<close>, \<^verbatim>\<open>Synchrony.MessageDelay\<close> and \<^verbatim>\<open>PBTSEnableHeight\<close> are zero.

  The second half fails as stated, for every such message: \<open>ConsensusParamsFromProto\<close> reads
  the Block, Evidence, Validator and Version sub-messages without a nil check, so the message
  with no sub-message at all yields no set: the call panics.
\<close>

theorem FromProto_empty_message_counterexample:
  "pbAbci empty_delta = None \<and> pbSynchrony empty_delta = None \<and> pbPbts empty_delta = None
   \<and> ConsensusParamsFromProto empty_delta = Inl NilPointerDereference"
  by (simp add: empty_delta_def ConsensusParamsFromProto_def)

text \<open>
  Claim C5, as it holds: for every parameter set \<open>p\<close>, \<open>ToProto\<close> returns a message and
  decoding it gives \<open>p\<close> back; for every wire message whose Block, Evidence, Validator and
  Version sub-messages are present and whose Abci, Synchrony and Pbts sub-messages are absent,
  \<open>ConsensusParamsFromProto\<close> returns a set whose \<^verbatim>\<open>VoteExtensionsEnableHeight\<close>,
  \<^verbatim>\<open>Synchrony.Precision\<close>, \<^verbatim>\<open>Synchrony.MessageDelay\<close> and \<^verbatim>\<open>PBTSEnableHeight\<close> are zero; a
  message that lacks one of Block, Evidence, Validator, Version makes it panic.
\<close>

theorem codec_round_trip:
  "(\<exists>m'. ToProto (Some p) = Inr m' \<and> ConsensusParamsFromProto m' = Inr p)
 \<and> (pbBlock m \<noteq> None \<and> pbEvidence m \<noteq> None \<and> pbValidator m \<noteq> None \<and> pbVersion m \<noteq> None
      \<and> pbAbci m = None \<and> pbSynchrony m = None \<and> pbPbts m = None \<longrightarrow>
      (\<exists>c. ConsensusParamsFromProto m = Inr c
          \<and> VoteExtensionsEnableHeight (ABCI c) = 0
          \<and> Precision (Synchrony c) = 0 \<and> MessageDelay (Synchrony c) = 0
          \<and> PBTSEnableHeight (PBTS c) = 0))
 \<and> (pbBlock m = None \<or> pbEvidence m = None \<or> pbValidator m = None \<or> pbVersion m = None \<longrightarrow>
      ConsensusParamsFromProto m = Inl NilPointerDereference)"
proof (intro conjI impI)
  show "\<exists>m'. ToProto (Some p) = Inr m' \<and> ConsensusParamsFromProto m' = Inr p"
    by (rule FromProto_ToProto)
next
  assume a: "pbBlock m \<noteq> None \<and> pbEvidence m \<noteq> None \<and> pbValidator m \<noteq> None
      \<and> pbVersion m \<noteq> None \<and> pbAbci m = None \<and> pbSynchrony m = None \<and> pbPbts m = None"
  then obtain b e v ver where "pbBlock m = Some b" "pbEvidence m = Some e"
      "pbValidator m = Some v" "pbVersion m = Some ver"
    by auto
  with a show "\<exists>c. ConsensusParamsFromProto m = Inr c
          \<and> VoteExtensionsEnableHeight (ABCI c) = 0
          \<and> Precision (Synchrony c) = 0 \<and> MessageDelay (Synchrony c) = 0
          \<and> PBTSEnableHeight (PBTS c) = 0"
    by (simp add: FromProto_optional_absent)
next
  assume "pbBlock m = None \<or> pbEvidence m = None \<or> pbValidator m = None \<or> pbVersion m = None"
  then show "ConsensusParamsFromProto m = Inl NilPointerDereference"
    by (rule FromProto_required_absent)
qed

text \<open>
  At the default set with heights 50 and 7, at a message with only the four required
  sub-messages, and at the message with none.
\<close>

theorem codec_round_trip_witness:
  "(\<exists>m'. ToProto (Some (makeParams 50 7)) = Inr m'
         \<and> ConsensusParamsFromProto m' = Inr (makeParams 50 7))
   \<and> (\<exists>c. ConsensusParamsFromProto
             (empty_delta\<lparr>pbBlock := Some \<lparr>pbMaxBytes = 1, pbMaxGas = 2\<rparr>,
                pbEvidence := Some \<lparr>pbMaxAgeNumBlocks = 3, pbMaxAgeDuration = 4,
                                    pbEvidenceMaxBytes = 5\<rparr>,
                pbValidator := Some \<lparr>pbPubKeyTypes = nil_slice\<rparr>,
                pbVersion := Some \<lparr>pbApp = 6\<rparr>\<rparr>) = Inr c
          \<and> VoteExtensionsEnableHeight (ABCI c) = 0
          \<and> Precision (Synchrony c) = 0 \<and> MessageDelay (Synchrony c) = 0
          \<and> PBTSEnableHeight (PBTS c) = 0)
   \<and> ConsensusParamsFromProto (empty_delta\<lparr>pbVersion := Some \<lparr>pbApp = 6\<rparr>\<rparr>)
       = Inl NilPointerDereference"
  using codec_round_trip [of "makeParams 50 7"
          "empty_delta\<lparr>pbBlock := Some \<lparr>pbMaxBytes = 1, pbMaxGas = 2\<rparr>,
                pbEvidence := Some \<lparr>pbMaxAgeNumBlocks = 3, pbMaxAgeDuration = 4,
                                    pbEvidenceMaxBytes = 5\<rparr>,
                pbValidator := Some \<lparr>pbPubKeyTypes = nil_slice\<rparr>,
                pbVersion := Some \<lparr>pbApp = 6\<rparr>\<rparr>"]
        codec_round_trip [of "makeParams 50 7" "empty_delta\<lparr>pbVersion := Some \<lparr>pbApp = 6\<rparr>\<rparr>"]
  by (simp add: empty_delta_def)

subsection \<open>Hash\<close>

text \<open>
  Claim C6: \<open>Hash\<close> is a function of \<^verbatim>\<open>Block.MaxBytes\<close> and \<^verbatim>\<open>Block.MaxGas\<close> alone: two
  parameter sets that agree on these two fields have the same hash, however they differ
  elsewhere, and hashing the same set again gives the same digest.

  Whatever the marshaller and the hasher are: two sets that agree on the two fields have the
  same outcome (the same digest, or the same panic); and when the marshaller and the hasher
  do not fail, the outcome is the digest of the marshalled pair. \<open>Hash\<close> starts from a new
  hasher at every call and is a function of the library and the set, so a repeated call
  returns the same digest.
\<close>

theorem Hash_block_only:
  "(MaxBytes (Block p) = MaxBytes (Block q) \<and> MaxGas (Block p) = MaxGas (Block q) \<longrightarrow>
      Hash L p = Hash L q)
 \<and> (\<forall>bz s. Marshal L \<lparr>BlockMaxBytes = MaxBytes (Block p), BlockMaxGas = MaxGas (Block p)\<rparr>
               = Inr bz
            \<and> Write L (tmhash_New L) bz = Inr s \<longrightarrow>
      Hash L p = Inr (Sum L s []))"
proof (intro conjI impI allI)
  assume "MaxBytes (Block p) = MaxBytes (Block q) \<and> MaxGas (Block p) = MaxGas (Block q)"
  then show "Hash L p = Hash L q"
    by (simp add: Hash_def)
next
  fix bz s
  assume "Marshal L \<lparr>BlockMaxBytes = MaxBytes (Block p), BlockMaxGas = MaxGas (Block p)\<rparr>
            = Inr bz
          \<and> Write L (tmhash_New L) bz = Inr s"
  then show "Hash L p = Inr (Sum L s [])"
    by (simp add: Hash_def)
qed

text \<open>
  Scenario 5: two sets with \<^verbatim>\<open>Block.MaxBytes = 4194304\<close> and \<^verbatim>\<open>Block.MaxGas = 10000000\<close>
  and different \<^verbatim>\<open>Evidence.MaxAgeDuration\<close>, hashed with the stand-in library.
\<close>

theorem Hash_block_only_witness:
  "MaxBytes (Block (makeParams 0 0)) = 4194304 \<and> MaxGas (Block (makeParams 0 0)) = 10000000
   \<and> MaxAgeDuration (Evidence (makeParams 0 0))
       \<noteq> MaxAgeDuration (Evidence ((makeParams 0 0)
             \<lparr>Evidence := (Evidence (makeParams 0 0))\<lparr>MaxAgeDuration := 1\<rparr>\<rparr>))
   \<and> Hash example_library (makeParams 0 0)
       = Hash example_library
           ((makeParams 0 0)\<lparr>Evidence := (Evidence (makeParams 0 0))\<lparr>MaxAgeDuration := 1\<rparr>\<rparr>)
   \<and> Hash example_library (makeParams 0 0)
       = Inr [ucast (4194304 :: int64), ucast (10000000 :: int64)]"
proof -
  note fact = Hash_block_only [of "makeParams 0 0"
          "(makeParams 0 0)\<lparr>Evidence := (Evidence (makeParams 0 0))\<lparr>MaxAgeDuration := 1\<rparr>\<rparr>"
          example_library]
  have same: "Hash example_library (makeParams 0 0)
       = Hash example_library
           ((makeParams 0 0)\<lparr>Evidence := (Evidence (makeParams 0 0))\<lparr>MaxAgeDuration := 1\<rparr>\<rparr>)"
    using fact by simp
  have fields: "MaxBytes (Block (makeParams 0 0)) = 4194304"
      "MaxGas (Block (makeParams 0 0)) = 10000000"
      "MaxAgeDuration (Evidence (makeParams 0 0)) \<noteq> 1"
    by (simp_all add: example_defs)
  have digest: "Hash example_library (makeParams 0 0)
       = Inr [ucast (4194304 :: int64), ucast (10000000 :: int64)]"
    by (simp add: Hash_def example_library_def fields)
  show ?thesis
    using same fields digest by simp
qed

subsection \<open>Update\<close>

text \<open>What each block leaves alone.\<close>

lemma assignBlock_frame:
  "Evidence (assignBlock m r) = Evidence r" "Validator (assignBlock m r) = Validator r"
  "Version (assignBlock m r) = Version r" "ABCI (assignBlock m r) = ABCI r"
  "Synchrony (assignBlock m r) = Synchrony r" "PBTS (assignBlock m r) = PBTS r"
  "assignBlock None r = r"
  by (simp_all add: assignBlock_def split: option.splits)

lemma assignEvidence_frame:
  "Block (assignEvidence m r) = Block r" "Validator (assignEvidence m r) = Validator r"
  "Version (assignEvidence m r) = Version r" "ABCI (assignEvidence m r) = ABCI r"
  "Synchrony (assignEvidence m r) = Synchrony r" "PBTS (assignEvidence m r) = PBTS r"
  "assignEvidence None r = r"
  by (simp_all add: assignEvidence_def split: option.splits)

lemma assignValidator_frame:
  "Block (fst (assignValidator m (r, M))) = Block r"
  "Evidence (fst (assignValidator m (r, M))) = Evidence r"
  "Version (fst (assignValidator m (r, M))) = Version r"
  "ABCI (fst (assignValidator m (r, M))) = ABCI r"
  "Synchrony (fst (assignValidator m (r, M))) = Synchrony r"
  "PBTS (fst (assignValidator m (r, M))) = PBTS r"
  "assignValidator None rM = rM"
  by (simp_all add: assignValidator_def split: option.splits prod.splits)

lemma assignVersion_frame:
  "Block (assignVersion m r) = Block r" "Evidence (assignVersion m r) = Evidence r"
  "Validator (assignVersion m r) = Validator r" "ABCI (assignVersion m r) = ABCI r"
  "Synchrony (assignVersion m r) = Synchrony r" "PBTS (assignVersion m r) = PBTS r"
  "assignVersion None r = r"
  by (simp_all add: assignVersion_def split: option.splits)

lemma assignAbci_frame:
  "Block (assignAbci m r) = Block r" "Evidence (assignAbci m r) = Evidence r"
  "Validator (assignAbci m r) = Validator r" "Version (assignAbci m r) = Version r"
  "Synchrony (assignAbci m r) = Synchrony r" "PBTS (assignAbci m r) = PBTS r"
  "assignAbci None r = r"
  by (simp_all add: assignAbci_def split: option.splits)

lemma assignSynchrony_frame:
  "Block (assignSynchrony m r) = Block r" "Evidence (assignSynchrony m r) = Evidence r"
  "Validator (assignSynchrony m r) = Validator r" "Version (assignSynchrony m r) = Version r"
  "ABCI (assignSynchrony m r) = ABCI r" "PBTS (assignSynchrony m r) = PBTS r"
  "assignSynchrony None r = r"
  by (simp_all add: assignSynchrony_def assignMessageDelay_def assignPrecision_def Let_def
        split: option.splits)

lemma assignPbts_frame:
  "Block (assignPbts m r) = Block r" "Evidence (assignPbts m r) = Evidence r"
  "Validator (assignPbts m r) = Validator r" "Version (assignPbts m r) = Version r"
  "ABCI (assignPbts m r) = ABCI r" "Synchrony (assignPbts m r) = Synchrony r"
  "assignPbts None r = r"
  by (simp_all add: assignPbts_def split: option.splits)

lemmas assign_frame =
  assignBlock_frame assignEvidence_frame assignValidator_frame assignVersion_frame
  assignAbci_frame assignSynchrony_frame assignPbts_frame

text \<open>\<open>Update\<close> as the composition of its blocks.\<close>

lemma Update_None: "Update M p None = (p, M)"
  by (simp add: Update_def)

lemma Update_Some:
  "Update M p (Some u) =
     (assignPbts (pbPbts u) (assignSynchrony (pbSynchrony u) (assignAbci (pbAbci u)
        (assignVersion (pbVersion u)
           (fst (assignValidator (pbValidator u)
                   (assignEvidence (pbEvidence u) (assignBlock (pbBlock u) p), M)))))),
      snd (assignValidator (pbValidator u)
             (assignEvidence (pbEvidence u) (assignBlock (pbBlock u) p), M)))"
  by (simp add: Update_def Let_def split: prod.splits)

text \<open>Memory: allocation writes fresh cells only.\<close>

lemma alloc_copy_elems: "elems (snd (alloc_copy M xs)) (fst (alloc_copy M xs)) = xs"
  by (auto simp add: alloc_copy_def elems_def intro!: nth_equalityI)

lemma assignValidator_memory:
  "a < brk M \<Longrightarrow> cell (snd (assignValidator m (r, M))) a = cell M a"
  "brk M \<le> brk (snd (assignValidator m (r, M)))"
  by (simp_all add: assignValidator_def append_to_empty_def alloc_copy_def
        split: option.splits prod.splits)

lemma Update_memory:
  "a < brk M \<Longrightarrow> cell (snd (Update M p d)) a = cell M a"
  "brk M \<le> brk (snd (Update M p d))"
  by (cases d; simp add: Update_None Update_Some assignValidator_memory)+

lemma elems_frame:
  "allocated M s \<Longrightarrow> (\<And>a. a < brk M \<Longrightarrow> cell M' a = cell M a) \<Longrightarrow> elems M' s = elems M s"
  by (auto simp add: allocated_def elems_def split: option.splits)

text \<open>
  When the delta has a Validator sub-message, the result's key types are a fresh slice
  holding a copy of the delta's.
\<close>

lemma Update_validator_copied:
  assumes "pbValidator u = Some v"
  shows "ptr (PubKeyTypes (Validator (fst (Update M p (Some u))))) = Some (brk M)"
    and "elems (snd (Update M p (Some u))) (PubKeyTypes (Validator (fst (Update M p (Some u)))))
           = elems M (pbPubKeyTypes v)"
proof -
  have v: "Validator (fst (Update M p (Some u)))
             = \<lparr>PubKeyTypes = fst (alloc_copy M (elems M (pbPubKeyTypes v)))\<rparr>"
    and m: "snd (Update M p (Some u)) = snd (alloc_copy M (elems M (pbPubKeyTypes v)))"
    using assms
    by (simp_all add: Update_Some assign_frame assignValidator_def append_to_empty_def
          split: prod.splits)
  show "ptr (PubKeyTypes (Validator (fst (Update M p (Some u))))) = Some (brk M)"
    by (simp add: v alloc_copy_def)
  show "elems (snd (Update M p (Some u))) (PubKeyTypes (Validator (fst (Update M p (Some u)))))
           = elems M (pbPubKeyTypes v)"
    by (simp add: v m alloc_copy_elems)
qed

text \<open>
  Claim C7: for every parameter set \<open>p\<close> and every delta \<open>d\<close>, \<open>Update\<close> never modifies \<open>p\<close>;
  every sub-group absent from \<open>d\<close> is unchanged, by value, in the result; and when \<open>d\<close> is nil
  or has no sub-group, the result equals \<open>p\<close>.

  \<open>p\<close> is passed by value, so the caller's struct cannot change; what it shares with the
  callee is the memory behind \<^verbatim>\<open>PubKeyTypes\<close>. The theorem says, for the memory \<open>Update\<close>
  returns: no cell allocated before the call has changed, so the key types \<open>p\<close> shows are the
  ones it showed before; each sub-group absent from the delta is equal in the result and in
  \<open>p\<close> (for Validator the slice is the same and the memory is untouched); and for a nil delta
  or a delta with no sub-group the result is \<open>p\<close> and the memory is untouched.
\<close>

theorem Update_frame:
  "(\<forall>a. a < brk M \<longrightarrow> cell (snd (Update M p d)) a = cell M a)
 \<and> (allocated M (PubKeyTypes (Validator p)) \<longrightarrow>
      elems (snd (Update M p d)) (PubKeyTypes (Validator p))
        = elems M (PubKeyTypes (Validator p)))
 \<and> (\<forall>u. d = Some u \<longrightarrow>
      (pbBlock u = None \<longrightarrow> Block (fst (Update M p d)) = Block p)
    \<and> (pbEvidence u = None \<longrightarrow> Evidence (fst (Update M p d)) = Evidence p)
    \<and> (pbValidator u = None \<longrightarrow>
          Validator (fst (Update M p d)) = Validator p \<and> snd (Update M p d) = M)
    \<and> (pbVersion u = None \<longrightarrow> Version (fst (Update M p d)) = Version p)
    \<and> (pbAbci u = None \<longrightarrow> ABCI (fst (Update M p d)) = ABCI p)
    \<and> (pbSynchrony u = None \<longrightarrow> Synchrony (fst (Update M p d)) = Synchrony p)
    \<and> (pbPbts u = None \<longrightarrow> PBTS (fst (Update M p d)) = PBTS p))
 \<and> (d = None
      \<or> (\<exists>u. d = Some u \<and> pbBlock u = None \<and> pbEvidence u = None \<and> pbValidator u = None
              \<and> pbVersion u = None \<and> pbAbci u = None \<and> pbSynchrony u = None
              \<and> pbPbts u = None) \<longrightarrow>
      Update M p d = (p, M))"
proof (intro conjI allI impI)
  fix a assume "a < brk M"
  then show "cell (snd (Update M p d)) a = cell M a"
    by (rule Update_memory)
next
  assume "allocated M (PubKeyTypes (Validator p))"
  then show "elems (snd (Update M p d)) (PubKeyTypes (Validator p))
        = elems M (PubKeyTypes (Validator p))"
    by (rule elems_frame) (rule Update_memory)
next
  assume "d = None
      \<or> (\<exists>u. d = Some u \<and> pbBlock u = None \<and> pbEvidence u = None \<and> pbValidator u = None
              \<and> pbVersion u = None \<and> pbAbci u = None \<and> pbSynchrony u = None
              \<and> pbPbts u = None)"
  then show "Update M p d = (p, M)"
    by (auto simp add: Update_None Update_Some assign_frame)
qed (simp_all add: Update_Some assign_frame)

text \<open>
  At the default set in its memory and a delta whose Validator sub-message carries the very
  slice of \<open>p\<close> and whose Abci sub-message proposes 50; then at the nil delta and at the
  delta with no sub-group.
\<close>

theorem Update_frame_witness:
  "allocated example_memory (PubKeyTypes (Validator (makeParams 0 0)))
   \<and> elems (snd (Update example_memory (makeParams 0 0)
        (Some (empty_delta\<lparr>pbValidator := Some \<lparr>pbPubKeyTypes =
                                PubKeyTypes (Validator (makeParams 0 0))\<rparr>,
                            pbAbci := Some \<lparr>pbVoteExtensionsEnableHeight = 50\<rparr>\<rparr>))))
        (PubKeyTypes (Validator (makeParams 0 0))) = [''ed25519'']
   \<and> Block (fst (Update example_memory (makeParams 0 0)
        (Some (empty_delta\<lparr>pbValidator := Some \<lparr>pbPubKeyTypes =
                                PubKeyTypes (Validator (makeParams 0 0))\<rparr>,
                            pbAbci := Some \<lparr>pbVoteExtensionsEnableHeight = 50\<rparr>\<rparr>))))
       = Block (makeParams 0 0)
   \<and> PBTS (fst (Update example_memory (makeParams 0 0)
        (Some (empty_delta\<lparr>pbValidator := Some \<lparr>pbPubKeyTypes =
                                PubKeyTypes (Validator (makeParams 0 0))\<rparr>,
                            pbAbci := Some \<lparr>pbVoteExtensionsEnableHeight = 50\<rparr>\<rparr>))))
       = PBTS (makeParams 0 0)
   \<and> Update example_memory (makeParams 0 0) None = (makeParams 0 0, example_memory)
   \<and> Update example_memory (makeParams 0 0) (Some empty_delta)
       = (makeParams 0 0, example_memory)"
proof -
  have alloc: "allocated example_memory (PubKeyTypes (Validator (makeParams 0 0)))"
    by (simp add: allocated_def example_defs)
  have shown: "elems example_memory (PubKeyTypes (Validator (makeParams 0 0))) = [''ed25519'']"
    by (simp add: elems_def example_defs)
  have absent: "pbBlock (empty_delta\<lparr>pbValidator := Some \<lparr>pbPubKeyTypes =
                                PubKeyTypes (Validator (makeParams 0 0))\<rparr>,
                            pbAbci := Some \<lparr>pbVoteExtensionsEnableHeight = 50\<rparr>\<rparr>) = None"
     "pbPbts (empty_delta\<lparr>pbValidator := Some \<lparr>pbPubKeyTypes =
                                PubKeyTypes (Validator (makeParams 0 0))\<rparr>,
                            pbAbci := Some \<lparr>pbVoteExtensionsEnableHeight = 50\<rparr>\<rparr>) = None"
     "pbBlock empty_delta = None \<and> pbEvidence empty_delta = None
      \<and> pbValidator empty_delta = None \<and> pbVersion empty_delta = None
      \<and> pbAbci empty_delta = None \<and> pbSynchrony empty_delta = None
      \<and> pbPbts empty_delta = None"
    by (simp_all add: empty_delta_def)
  show ?thesis
    using alloc shown absent
      Update_frame [of example_memory "makeParams 0 0"
        "Some (empty_delta\<lparr>pbValidator := Some \<lparr>pbPubKeyTypes =
                                PubKeyTypes (Validator (makeParams 0 0))\<rparr>,
                            pbAbci := Some \<lparr>pbVoteExtensionsEnableHeight = 50\<rparr>\<rparr>)"]
      Update_frame [of example_memory "makeParams 0 0" None]
      Update_frame [of example_memory "makeParams 0 0" "Some empty_delta"]
    by simp
qed


end
